theory Spec2Isabelle
  imports Main
begin

section \<open>The script \<open>src/smithay/wayland/shell/xdg/sidebar-items.js\<close>\<close>

text \<open>
  The file is one line of JavaScript: the expression statement
  \<^verbatim>\<open>initSidebarItems({...});\<close>
  whose only argument is an object literal. The literal has four keys (\<open>constant\<close>,
  \<open>enum\<close>, \<open>fn\<close>, \<open>struct\<close>); the value of each key is an array of two-element arrays
  \<open>[name, description]\<close> of string literals.
\<close>

subsection \<open>Syntax\<close>

text \<open>The literals of the file: strings, arrays and objects (an object keeps the order of its keys).\<close>

datatype js_value =
    JStr string
  | JArr "js_value list"
  | JObj "(string \<times> js_value) list"

text \<open>The only statement form of the file: a call of a global function on literal arguments.\<close>

datatype js_stmt = CallStmt string "js_value list"

text \<open>The object literal, key by key as the file has it.\<close>

definition constant_literal :: js_value where
  "constant_literal = JArr
     [JArr [JStr ''XDG_POPUP_ROLE'', JStr ''The role of an XDG popup surface.''],
      JArr [JStr ''XDG_TOPLEVEL_ROLE'', JStr ''The role of an XDG toplevel surface.''],
      JArr [JStr ''ZXDG_POPUP_ROLE'', JStr ''The role of an ZXDG popup surface.''],
      JArr [JStr ''ZXDG_TOPLEVEL_ROLE'', JStr ''The role of an ZXDG toplevel surface.'']]"

definition enum_literal :: js_value where
  "enum_literal = JArr
     [JArr [JStr ''Configure'', JStr ''Defines the possible configure variants for a XdgSurface that will be issued in the user_impl for notifying about a ack_configure''],
      JArr [JStr ''PopupConfigureError'', JStr ''Represents the possible errors that can be returned from [`PopupSurface::send_configure`]''],
      JArr [JStr ''XdgRequest'', JStr ''Events generated by xdg shell surfaces'']]"

definition fn_literal :: js_value where
  "fn_literal = JArr
     [JArr [JStr ''xdg_shell_init'', JStr ''Create a new `xdg_shell` global'']]"

definition struct_literal :: js_value where
  "struct_literal = JArr
     [JArr [JStr ''PopupConfigure'', JStr ''A configure message for popup surface''],
      JArr [JStr ''PopupState'', JStr ''Represents the state of the popup''],
      JArr [JStr ''PopupSurface'', JStr ''A handle to a popup surface''],
      JArr [JStr ''PositionerState'', JStr ''The state of a positioner, as set by the client''],
      JArr [JStr ''ShellClient'', JStr ''A shell client''],
      JArr [JStr ''ShellState'', JStr ''Shell global state''],
      JArr [JStr ''SurfaceCachedState'', JStr ''Represents the client pending state''],
      JArr [JStr ''ToplevelConfigure'', JStr ''A configure message for toplevel surfaces''],
      JArr [JStr ''ToplevelState'', JStr ''State of a regular toplevel surface''],
      JArr [JStr ''ToplevelStateSet'', JStr ''Container holding the states for a `XdgToplevel`''],
      JArr [JStr ''ToplevelSurface'', JStr ''A handle to a toplevel surface''],
      JArr [JStr ''XdgPopupSurfaceRoleAttributes'', JStr ''Role specific attributes for xdg_popup''],
      JArr [JStr ''XdgToplevelSurfaceRoleAttributes'', JStr ''Role specific attributes for xdg_toplevel'']]"

definition sidebar_literal :: js_value where
  "sidebar_literal = JObj
     [(''constant'', constant_literal),
      (''enum'', enum_literal),
      (''fn'', fn_literal),
      (''struct'', struct_literal)]"

text \<open>The whole file.\<close>

definition sidebar_script :: "js_stmt list" where
  "sidebar_script = [CallStmt ''initSidebarItems'' [sidebar_literal]]"

subsection \<open>Running the script\<close>

text \<open>
  \<open>initSidebarItems\<close> is not defined in the file: the page that loads the script provides
  it. The host is therefore a parameter: it says what a call of a global function on its
  arguments does to the page state \<open>'w\<close>. Statements run in order.
\<close>

fun exec_stmt :: "(string \<Rightarrow> js_value list \<Rightarrow> 'w \<Rightarrow> 'w) \<Rightarrow> js_stmt \<Rightarrow> 'w \<Rightarrow> 'w" where
  "exec_stmt host (CallStmt f args) w = host f args w"

fun exec_script :: "(string \<Rightarrow> js_value list \<Rightarrow> 'w \<Rightarrow> 'w) \<Rightarrow> js_stmt list \<Rightarrow> 'w \<Rightarrow> 'w" where
  "exec_script host [] w = w"
| "exec_script host (s # ss) w = exec_script host ss (exec_stmt host s w)"

subsection \<open>The mapping the literal denotes\<close>

text \<open>
  A sidebar mapping sends each category to its entries, an entry being a symbol name with
  its description. Reading a literal fails (\<open>None\<close>) when the literal has another shape.
\<close>

type_synonym entry = "string \<times> string"
type_synonym sidebar = "(string \<times> entry list) list"

fun entry_of :: "js_value \<Rightarrow> entry option" where
  "entry_of (JArr [JStr name, JStr descr]) = Some (name, descr)"
| "entry_of _ = None"

fun entries_of_list :: "js_value list \<Rightarrow> entry list option" where
  "entries_of_list [] = Some []"
| "entries_of_list (v # vs) =
     (case entry_of v of
        None \<Rightarrow> None
      | Some e \<Rightarrow> (case entries_of_list vs of None \<Rightarrow> None | Some es \<Rightarrow> Some (e # es)))"

fun entries_of :: "js_value \<Rightarrow> entry list option" where
  "entries_of (JArr vs) = entries_of_list vs"
| "entries_of _ = None"

fun categories_of :: "(string \<times> js_value) list \<Rightarrow> sidebar option" where
  "categories_of [] = Some []"
| "categories_of ((k, v) # kvs) =
     (case entries_of v of
        None \<Rightarrow> None
      | Some es \<Rightarrow> (case categories_of kvs of None \<Rightarrow> None | Some cs \<Rightarrow> Some ((k, es) # cs)))"

fun sidebar_of :: "js_value \<Rightarrow> sidebar option" where
  "sidebar_of (JObj kvs) = categories_of kvs"
| "sidebar_of _ = None"

definition sidebar_items :: sidebar where
  "sidebar_items = (case sidebar_of sidebar_literal of None \<Rightarrow> [] | Some m \<Rightarrow> m)"

text \<open>Entries of a category (none when the mapping has no such key), and their names.\<close>

definition category :: "string \<Rightarrow> entry list" where
  "category c = (case map_of sidebar_items c of None \<Rightarrow> [] | Some es \<Rightarrow> es)"

definition category_names :: "string \<Rightarrow> string list" where
  "category_names c = map fst (category c)"

text \<open>All entries of the mapping, category after category, and all symbol names.\<close>

definition all_entries :: "entry list" where
  "all_entries = concat (map snd sidebar_items)"

definition symbol_names :: "string list" where
  "symbol_names = map fst all_entries"

text \<open>The description the mapping gives for a symbol of a category.\<close>

definition description :: "string \<Rightarrow> string \<Rightarrow> string option" where
  "description c name = map_of (category c) name"

text \<open>Whether a text occurs in a description, as a contiguous run of characters.\<close>

fun starts_with :: "string \<Rightarrow> string \<Rightarrow> bool" where
  "starts_with [] s = True"
| "starts_with (p # ps) [] = False"
| "starts_with (p # ps) (c # cs) = (p = c \<and> starts_with ps cs)"

fun mentions :: "string \<Rightarrow> string \<Rightarrow> bool" where
  "mentions p [] = (p = [])"
| "mentions p (c # cs) = (starts_with p (c # cs) \<or> mentions p cs)"

text \<open>Whether the mapping documents a symbol of a category with a description that mentions a text.\<close>

definition documented_with :: "string \<Rightarrow> string \<Rightarrow> string \<Rightarrow> bool" where
  "documented_with c name txt =
     (case description c name of None \<Rightarrow> False | Some d \<Rightarrow> mentions txt d)"

text \<open>
  A description refers to an item of the module by a link: the path of the item between
  \<^verbatim>\<open>[`\<close> and \<^verbatim>\<open>`]\<close>. \<open>link_text\<close> reads a path up to the closing mark,
  \<open>doc_links\<close> collects the paths of a description, and \<open>split_path\<close> cuts a path
  \<open>Type::member\<close> at its first \<open>::\<close>.
\<close>

fun link_text :: "string \<Rightarrow> string option" where
  "link_text [] = None"
| "link_text (c # cs) =
     (if starts_with ''`]'' (c # cs) then Some []
      else (case link_text cs of None \<Rightarrow> None | Some l \<Rightarrow> Some (c # l)))"

fun doc_links :: "string \<Rightarrow> string list" where
  "doc_links [] = []"
| "doc_links (c # cs) =
     (if starts_with ''[`'' (c # cs)
      then (case link_text (drop 1 cs) of None \<Rightarrow> doc_links cs | Some l \<Rightarrow> l # doc_links cs)
      else doc_links cs)"

fun split_path :: "string \<Rightarrow> (string \<times> string) option" where
  "split_path [] = None"
| "split_path (c # cs) =
     (if starts_with ''::'' (c # cs) then Some ([], drop 1 cs)
      else (case split_path cs of None \<Rightarrow> None | Some (ty, f) \<Rightarrow> Some (c # ty, f)))"

text \<open>The members of types that the descriptions of the mapping link to, as pairs of the type
  and the member.\<close>

definition referenced_members :: "(string \<times> string) list" where
  "referenced_members =
     concat (map (\<lambda>e. List.map_filter split_path (doc_links (snd e))) all_entries)"

section \<open>The configure/acknowledge state machine\<close>

text \<open>
  The script lists the names of the shell's types and of its one function; the operations on
  a surface (\<open>request_configure\<close>, \<open>ack_configure\<close>, \<open>dismiss\<close>, \<open>set_positioner\<close>,
  the destruction of a surface), the surface state they work on and the shell that routes
  requests to surfaces are not in it. Each definition of this section and of the next is
  therefore written from the specification (its sections 3, 4, 5, 6, 7 and 8) and says so. The
  state a configure proposes (\<open>'a\<close>) and the positioner state (\<open>'p\<close>) are left abstract.
\<close>

text \<open>Modelled from the spec: the lifecycle flag \<open>PopupState\<close> of a popup, "mapped / unmapped /
  dismissed"; the script has the name only.\<close>

datatype popup_lifecycle = Unmapped | Mapped | Dismissed

text \<open>Modelled from the spec: the role of a surface, "a tagged variant over {Toplevel, Popup}",
  the popup carrying its lifecycle as "an orthogonal lifecycle axis"; not in the script.\<close>

datatype surface_role = Toplevel | Popup popup_lifecycle

text \<open>Modelled from the spec: the states of the machine, "Unconfigured, Configured(serial),
  Acknowledged(serial)" and "Destroyed from any state"; not in the script.\<close>

datatype configure_phase = Unconfigured | Configured nat | Acknowledged nat | Destroyed

text \<open>Modelled from the spec: the error kinds of an acknowledgement, \<open>AckError::UnknownSerial\<close>
  and the \<open>PopupConfigureError\<close> variants. The spec names no variant of the latter and gives
  two causes, which are the two variants here: "a popup acknowledges while already Dismissed"
  and a popup "acknowledges an out-of-order serial relative to reposition requests". The
  script has the name \<open>PopupConfigureError\<close> only, and no \<open>AckError\<close>.\<close>

datatype ack_error = UnknownSerial

datatype popup_configure_error = AckWhileDismissed | AckBeforeReposition

datatype configure_error = AckError ack_error | PopupConfigureError popup_configure_error

text \<open>Modelled from the spec: the configure event that \<open>request_configure\<close> returns, "describing
  the next expected surface state" and "tagged with a monotonically increasing serial number";
  the script has no fields of any type.\<close>

record 'a configure_event =
  serial :: nat
  next_state :: 'a

text \<open>Modelled from the spec: the state of one surface's machine: its role, its state, the
  "latest-issued serial" (0 before the first, since serials start at 1), the
  "issued-but-unacknowledged" configures in the order they were issued, the current
  (committed) state, the stored \<open>PositionerState\<close> of a popup, and the serial of the
  configure that the latest reposition request caused (0 when there was none); not in the
  script.\<close>

record ('a, 'p) surface =
  role :: surface_role
  phase :: configure_phase
  latest_serial :: nat
  outstanding :: "'a configure_event list"
  current :: "'a option"
  positioner :: "'p option"
  reposition_serial :: nat

text \<open>Modelled from the spec: the surfaces that "create-toplevel" and "create-popup" make,
  \<open>Unconfigured\<close> and with no serial issued; not in the script.\<close>

definition new_toplevel :: "('a, 'p) surface" where
  "new_toplevel =
     \<lparr>role = Toplevel, phase = Unconfigured, latest_serial = 0, outstanding = [], current = None,
      positioner = None, reposition_serial = 0\<rparr>"

definition new_popup :: "('a, 'p) surface" where
  "new_popup =
     \<lparr>role = Popup Unmapped, phase = Unconfigured, latest_serial = 0, outstanding = [],
      current = None, positioner = None, reposition_serial = 0\<rparr>"

text \<open>Modelled from the spec: a popup that has been dismissed; not in the script.\<close>

definition dismissed :: "('a, 'p) surface \<Rightarrow> bool" where
  "dismissed s = (role s = Popup Dismissed)"

text \<open>Modelled from the spec: \<open>request_configure(new_state)\<close>, which "allocates the next serial
  (monotonic per surface, starts at 1), stores it as the latest-issued serial, returns the
  configure event for transmission" and "marks surface Configured(serial)". A dismissed popup
  is "terminal - no further configure/ack accepted" and \<open>Destroyed\<close> is final: there the
  request is not accepted (\<open>None\<close>) and no serial is allocated. Not in the script.\<close>

definition request_configure ::
  "'a \<Rightarrow> ('a, 'p) surface \<Rightarrow> ('a configure_event \<times> ('a, 'p) surface) option" where
  "request_configure new_state s =
     (if phase s = Destroyed \<or> dismissed s then None
      else
        let n = latest_serial s + 1;
            ev = \<lparr>serial = n, next_state = new_state\<rparr>
        in Some (ev, s\<lparr>phase := Configured n, latest_serial := n,
                       outstanding := outstanding s @ [ev]\<rparr>))"

text \<open>Modelled from the spec: \<open>set_positioner(state)\<close>, "popup only", which "stores new
  PositionerState, triggers recomputation via PositionerEngine, and implicitly calls
  request_configure". It is the reposition request of a popup; the serial of the configure it
  causes is remembered. The engine's \<open>compute_geometry\<close> is a parameter: the spec gives its
  contract and nothing to compute with. A toplevel has no such operation (\<open>None\<close>). Not in the
  script.\<close>

definition set_positioner ::
  "('p \<Rightarrow> 'a) \<Rightarrow> 'p \<Rightarrow> ('a, 'p) surface \<Rightarrow> ('a configure_event \<times> ('a, 'p) surface) option" where
  "set_positioner compute_geometry p s =
     (case role s of
        Toplevel \<Rightarrow> None
      | Popup _ \<Rightarrow>
          (case request_configure (compute_geometry p) (s\<lparr>positioner := Some p\<rparr>) of
             None \<Rightarrow> None
           | Some (ev, s') \<Rightarrow> Some (ev, s'\<lparr>reposition_serial := serial ev\<rparr>)))"

text \<open>Modelled from the spec: the outstanding serials of a surface, and a stale
  acknowledgement, "whose serial is less than the lowest currently outstanding serial"; not in
  the script.\<close>

definition outstanding_serials :: "('a, 'p) surface \<Rightarrow> nat list" where
  "outstanding_serials s = map serial (outstanding s)"

definition stale :: "nat \<Rightarrow> ('a, 'p) surface \<Rightarrow> bool" where
  "stale n s = (outstanding s \<noteq> [] \<and> list_all (\<lambda>m. n < m) (outstanding_serials s))"

text \<open>Modelled from the spec: \<open>ack_configure(serial)\<close>; not in the script. In the order of the
  branches:
  \<^item> on a destroyed surface the acknowledgement "is a no-op (surface gone)";
  \<^item> it "fails with PopupConfigureError variants if a popup acknowledges while already
    Dismissed";
  \<^item> a stale acknowledgement is "ignored", "a no-op", "never an error surfaced upward";
  \<^item> it "fails if serial does not match any issued-but-unacknowledged serial
    (AckError::UnknownSerial)";
  \<^item> it fails with a \<open>PopupConfigureError\<close> variant if a popup "acknowledges an out-of-order
    serial relative to reposition requests": the serial of an outstanding configure that was
    issued before the configure of the latest reposition request. (The spec does not spell
    the order out. This reading rejects the answer to a configure that a reposition has
    superseded, and it leaves the stale and the cumulative acknowledgements of the ordering
    rule as they are.)
  \<^item> otherwise it commits the state of the acknowledged configure, "advances to
    Acknowledged(serial)", and counts "as acknowledging all earlier outstanding configures as
    well".\<close>

definition ack_configure :: "nat \<Rightarrow> ('a, 'p) surface \<Rightarrow> configure_error + ('a, 'p) surface" where
  "ack_configure n s =
     (if phase s = Destroyed then Inr s
      else if dismissed s then Inl (PopupConfigureError AckWhileDismissed)
      else if stale n s then Inr s
      else
        (case find (\<lambda>ev. serial ev = n) (outstanding s) of
           None \<Rightarrow> Inl (AckError UnknownSerial)
         | Some ev \<Rightarrow>
             if role s \<noteq> Toplevel \<and> n < reposition_serial s
             then Inl (PopupConfigureError AckBeforeReposition)
             else
               Inr (s\<lparr>phase := Acknowledged n,
                      outstanding := filter (\<lambda>e. n < serial e) (outstanding s),
                      current := Some (next_state ev)\<rparr>)))"

text \<open>Modelled from the spec: \<open>dismiss()\<close>, "popup only": it "transitions to Dismissed", is
  "terminal - no further configure/ack accepted" and "idempotent if already dismissed". Since
  no acknowledgement is accepted any more, no configure of the popup stays outstanding. A
  toplevel has no such operation and stays as it is. Not in the script.\<close>

definition dismiss :: "('a, 'p) surface \<Rightarrow> ('a, 'p) surface" where
  "dismiss s =
     (case role s of
        Toplevel \<Rightarrow> s
      | Popup _ \<Rightarrow> s\<lparr>role := Popup Dismissed, outstanding := []\<rparr>)"

text \<open>Modelled from the spec: the destruction of a surface, which "cancels all outstanding
  configures for it (their serials become permanently unacknowledgeable) without error"; not
  in the script.\<close>

definition destroy :: "('a, 'p) surface \<Rightarrow> ('a, 'p) surface" where
  "destroy s = s\<lparr>phase := Destroyed, outstanding := []\<rparr>"

text \<open>Modelled from the spec: the requests that reach one surface, and what becomes of the
  surface at each. A request that is not accepted and an \<open>AckError\<close> leave the surface as
  it is; on a \<open>PopupConfigureError\<close> the surface is "destroyed per protocol convention". Not
  in the script.\<close>

datatype ('a, 'p) request =
  RequestConfigure 'a | SetPositioner 'p | AckConfigure nat | Dismiss | Destroy

fun handle :: "('p \<Rightarrow> 'a) \<Rightarrow> ('a, 'p) request \<Rightarrow> ('a, 'p) surface \<Rightarrow> ('a, 'p) surface" where
  "handle g (RequestConfigure st) s =
     (case request_configure st s of None \<Rightarrow> s | Some (ev, s') \<Rightarrow> s')"
| "handle g (SetPositioner p) s =
     (case set_positioner g p s of None \<Rightarrow> s | Some (ev, s') \<Rightarrow> s')"
| "handle g (AckConfigure n) s =
     (case ack_configure n s of
        Inr s' \<Rightarrow> s'
      | Inl (AckError e) \<Rightarrow> s
      | Inl (PopupConfigureError e) \<Rightarrow> destroy s)"
| "handle g Dismiss s = dismiss s"
| "handle g Destroy s = destroy s"

fun run :: "('p \<Rightarrow> 'a) \<Rightarrow> ('a, 'p) request list \<Rightarrow> ('a, 'p) surface \<Rightarrow> ('a, 'p) surface" where
  "run g [] s = s"
| "run g (r # rs) s = run g rs (handle g r s)"

text \<open>Modelled from the spec: a sequence of \<open>request_configure\<close> calls on one surface, one call
  for each proposed state, and the serials of the configure events the calls return, in the
  order of the calls.\<close>

fun request_all :: "'a list \<Rightarrow> ('a, 'p) surface \<Rightarrow> nat list" where
  "request_all [] s = []"
| "request_all (st # sts) s =
     (case request_configure st s of
        None \<Rightarrow> request_all sts s
      | Some (ev, s') \<Rightarrow> serial ev # request_all sts s')"

text \<open>The invariant of a surface: its outstanding serials increase strictly, none is beyond
  the latest issued one, the last of them is the latest issued one, a destroyed surface and
  a dismissed popup have none, and the serial of the latest reposition is an issued one.\<close>

definition serials_in_order :: "('a, 'p) surface \<Rightarrow> bool" where
  "serials_in_order s =
     (sorted_wrt (<) (outstanding_serials s) \<and>
      list_all (\<lambda>m. m \<le> latest_serial s) (outstanding_serials s) \<and>
      (outstanding s = [] \<or> last (outstanding_serials s) = latest_serial s) \<and>
      (phase s = Destroyed \<longrightarrow> outstanding s = []) \<and>
      (dismissed s \<longrightarrow> outstanding s = []) \<and>
      reposition_serial s \<le> latest_serial s)"

section \<open>The shell and its handler\<close>

text \<open>Modelled from the spec: the identifiers of clients (transport endpoints) and of the
  underlying generic surfaces; not in the script.\<close>

type_synonym client_id = nat
type_synonym surface_id = nat



text \<open>Modelled from the spec: \<open>ShellState\<close>, the "global directory of ShellClient to surfaces":
  the connected clients, and the live surfaces in creation order, each with its owner and its
  machine. The script has the name only.\<close>

record ('a, 'p) ShellState =
  clients :: "client_id list"
  surfaces :: "(surface_id \<times> client_id \<times> ('a, 'p) surface) list"

definition new_shell :: "('a, 'p) ShellState" where
  "new_shell = \<lparr>clients = [], surfaces = []\<rparr>"










section \<open>Facts about the mapping\<close>

lemma sidebar_of_literal:
  "sidebar_of sidebar_literal = Some
     [(''constant'',
        [(''XDG_POPUP_ROLE'', ''The role of an XDG popup surface.''),
         (''XDG_TOPLEVEL_ROLE'', ''The role of an XDG toplevel surface.''),
         (''ZXDG_POPUP_ROLE'', ''The role of an ZXDG popup surface.''),
         (''ZXDG_TOPLEVEL_ROLE'', ''The role of an ZXDG toplevel surface.'')]),
      (''enum'',
        [(''Configure'', ''Defines the possible configure variants for a XdgSurface that will be issued in the user_impl for notifying about a ack_configure''),
         (''PopupConfigureError'', ''Represents the possible errors that can be returned from [`PopupSurface::send_configure`]''),
         (''XdgRequest'', ''Events generated by xdg shell surfaces'')]),
      (''fn'',
        [(''xdg_shell_init'', ''Create a new `xdg_shell` global'')]),
      (''struct'',
        [(''PopupConfigure'', ''A configure message for popup surface''),
         (''PopupState'', ''Represents the state of the popup''),
         (''PopupSurface'', ''A handle to a popup surface''),
         (''PositionerState'', ''The state of a positioner, as set by the client''),
         (''ShellClient'', ''A shell client''),
         (''ShellState'', ''Shell global state''),
         (''SurfaceCachedState'', ''Represents the client pending state''),
         (''ToplevelConfigure'', ''A configure message for toplevel surfaces''),
         (''ToplevelState'', ''State of a regular toplevel surface''),
         (''ToplevelStateSet'', ''Container holding the states for a `XdgToplevel`''),
         (''ToplevelSurface'', ''A handle to a toplevel surface''),
         (''XdgPopupSurfaceRoleAttributes'', ''Role specific attributes for xdg_popup''),
         (''XdgToplevelSurfaceRoleAttributes'', ''Role specific attributes for xdg_toplevel'')])]"
  by (simp add: sidebar_literal_def constant_literal_def enum_literal_def fn_literal_def
      struct_literal_def)

lemma category_constant:
  "category ''constant'' =
     [(''XDG_POPUP_ROLE'', ''The role of an XDG popup surface.''),
      (''XDG_TOPLEVEL_ROLE'', ''The role of an XDG toplevel surface.''),
      (''ZXDG_POPUP_ROLE'', ''The role of an ZXDG popup surface.''),
      (''ZXDG_TOPLEVEL_ROLE'', ''The role of an ZXDG toplevel surface.'')]"
  by (simp add: category_def sidebar_items_def sidebar_of_literal)

lemma category_enum:
  "category ''enum'' =
     [(''Configure'', ''Defines the possible configure variants for a XdgSurface that will be issued in the user_impl for notifying about a ack_configure''),
      (''PopupConfigureError'', ''Represents the possible errors that can be returned from [`PopupSurface::send_configure`]''),
      (''XdgRequest'', ''Events generated by xdg shell surfaces'')]"
  by (simp add: category_def sidebar_items_def sidebar_of_literal)

lemma category_fn:
  "category ''fn'' = [(''xdg_shell_init'', ''Create a new `xdg_shell` global'')]"
  by (simp add: category_def sidebar_items_def sidebar_of_literal)

lemma category_struct:
  "category ''struct'' =
     [(''PopupConfigure'', ''A configure message for popup surface''),
      (''PopupState'', ''Represents the state of the popup''),
      (''PopupSurface'', ''A handle to a popup surface''),
      (''PositionerState'', ''The state of a positioner, as set by the client''),
      (''ShellClient'', ''A shell client''),
      (''ShellState'', ''Shell global state''),
      (''SurfaceCachedState'', ''Represents the client pending state''),
      (''ToplevelConfigure'', ''A configure message for toplevel surfaces''),
      (''ToplevelState'', ''State of a regular toplevel surface''),
      (''ToplevelStateSet'', ''Container holding the states for a `XdgToplevel`''),
      (''ToplevelSurface'', ''A handle to a toplevel surface''),
      (''XdgPopupSurfaceRoleAttributes'', ''Role specific attributes for xdg_popup''),
      (''XdgToplevelSurfaceRoleAttributes'', ''Role specific attributes for xdg_toplevel'')]"
  by (simp add: category_def sidebar_items_def sidebar_of_literal)

lemma symbol_names_eq:
  "symbol_names =
     [''XDG_POPUP_ROLE'', ''XDG_TOPLEVEL_ROLE'', ''ZXDG_POPUP_ROLE'', ''ZXDG_TOPLEVEL_ROLE'',
      ''Configure'', ''PopupConfigureError'', ''XdgRequest'',
      ''xdg_shell_init'',
      ''PopupConfigure'', ''PopupState'', ''PopupSurface'', ''PositionerState'', ''ShellClient'',
      ''ShellState'', ''SurfaceCachedState'', ''ToplevelConfigure'', ''ToplevelState'',
      ''ToplevelStateSet'', ''ToplevelSurface'', ''XdgPopupSurfaceRoleAttributes'',
      ''XdgToplevelSurfaceRoleAttributes'']"
  by (simp add: symbol_names_def all_entries_def sidebar_items_def sidebar_of_literal)


lemma descriptions_one_line: "list_all (\<lambda>e. CHR 0x0A \<notin> set (snd e)) all_entries"
  by (simp add: all_entries_def sidebar_items_def sidebar_of_literal)

lemma all_entries_eq:
  "all_entries = category ''constant'' @ category ''enum'' @ category ''fn'' @ category ''struct''"
  by (simp add: all_entries_def category_def sidebar_items_def sidebar_of_literal)

lemma referenced_members_eq: "referenced_members = [(''PopupSurface'', ''send_configure'')]"
  unfolding referenced_members_def all_entries_eq category_constant category_enum category_fn
    category_struct
  by (simp add: List.map_filter_simps)

section \<open>Facts about the state machine\<close>

subsection \<open>Serials of successive requests\<close>

lemma request_all_live:
  "phase s \<noteq> Destroyed \<Longrightarrow> \<not> dismissed s \<Longrightarrow>
   request_all sts s = [Suc (latest_serial s) ..< Suc (latest_serial s) + length sts]"
proof (induction sts arbitrary: s)
  case Nil
  then show ?case by simp
next
  case (Cons st sts)
  let ?s' = "s\<lparr>phase := Configured (Suc (latest_serial s)), latest_serial := Suc (latest_serial s),
                outstanding := outstanding s @ [\<lparr>serial = Suc (latest_serial s), next_state = st\<rparr>]\<rparr>"
  have live: "phase ?s' \<noteq> Destroyed" "\<not> dismissed ?s'"
    using Cons.prems by (simp_all add: dismissed_def)
  have "request_all (st # sts) s = Suc (latest_serial s) # request_all sts ?s'"
    using Cons.prems by (simp add: request_configure_def Let_def)
  also have "request_all sts ?s' = [Suc (Suc (latest_serial s)) ..< Suc (Suc (latest_serial s)) + length sts]"
    using Cons.IH [OF live] by simp
  finally show ?case by (simp add: upt_rec)
qed

lemma request_all_dead:
  "phase s = Destroyed \<or> dismissed s \<Longrightarrow> request_all sts s = []"
  by (induction sts) (simp_all add: request_configure_def)

subsection \<open>The invariant of a surface\<close>

lemma inv_new: "serials_in_order new_toplevel" "serials_in_order new_popup"
  by (simp_all add: serials_in_order_def new_toplevel_def new_popup_def outstanding_serials_def
      dismissed_def)

lemma inv_request:
  assumes "serials_in_order s" "request_configure st s = Some (ev, s')"
  shows "serials_in_order s'"
proof -
  from assms(2) have live: "phase s \<noteq> Destroyed" "\<not> dismissed s"
    by (auto simp: request_configure_def split: if_splits)
  from assms(2) live have s': "outstanding_serials s' = outstanding_serials s @ [Suc (latest_serial s)]"
    "latest_serial s' = Suc (latest_serial s)" "phase s' \<noteq> Destroyed" "outstanding s' \<noteq> []"
    "\<not> dismissed s'" "reposition_serial s' = reposition_serial s"
    by (auto simp: request_configure_def outstanding_serials_def Let_def dismissed_def)
  from assms(1) have "\<forall>m \<in> set (outstanding_serials s). m < Suc (latest_serial s)"
    by (auto simp: serials_in_order_def list_all_iff)
  with assms(1) s' show ?thesis
    by (auto simp: serials_in_order_def sorted_wrt_append list_all_iff)
qed

lemma request_serial:
  "request_configure st s = Some (ev, s') \<Longrightarrow> serial ev = latest_serial s'"
  by (auto simp: request_configure_def Let_def split: if_splits)

lemma inv_set_positioner:
  assumes "serials_in_order s" "set_positioner g p s = Some (ev, s')"
  shows "serials_in_order s'"
proof -
  from assms(2) obtain s1 where
    rq: "request_configure (g p) (s\<lparr>positioner := Some p\<rparr>) = Some (ev, s1)"
    and s': "s' = s1\<lparr>reposition_serial := serial ev\<rparr>"
    by (auto simp: set_positioner_def split: surface_role.splits option.splits)
  from assms(1) have "serials_in_order (s\<lparr>positioner := Some p\<rparr>)"
    by (simp add: serials_in_order_def outstanding_serials_def dismissed_def)
  from inv_request [OF this rq] have "serials_in_order s1" .
  with s' request_serial [OF rq] show ?thesis
    by (simp add: serials_in_order_def outstanding_serials_def dismissed_def)
qed

lemma sorted_filter_last:
  "sorted_wrt (<) xs \<Longrightarrow> filter (\<lambda>m. (n::nat) < m) xs \<noteq> [] \<Longrightarrow>
   last (filter (\<lambda>m. n < m) xs) = last xs"
proof (induction xs)
  case Nil
  then show ?case by simp
next
  case (Cons x xs)
  show ?case
  proof (cases "filter (\<lambda>m. n < m) xs = []")
    case True
    with Cons.prems have nx: "n < x" by (auto split: if_splits)
    have "xs = []"
    proof (rule ccontr)
      assume "xs \<noteq> []"
      then obtain y where y: "y \<in> set xs" by (cases xs) auto
      with Cons.prems(1) have "x < y" by simp
      with nx have "n < y" by simp
      with y have "y \<in> set (filter (\<lambda>m. n < m) xs)" by simp
      with True show False by simp
    qed
    with nx show ?thesis by simp
  next
    case False
    then have "xs \<noteq> []" by auto
    with False Cons show ?thesis by simp
  qed
qed

lemma filter_serials:
  "map serial (filter (\<lambda>e. n < serial e) evs) = filter (\<lambda>m. n < m) (map serial evs)"
  by (induction evs) simp_all

lemma inv_ack:
  assumes "serials_in_order s" "ack_configure n s = Inr s'"
  shows "serials_in_order s'"
proof (cases "s' = s")
  case True
  with assms(1) show ?thesis by simp
next
  case False
  with assms(2) have upd: "outstanding s' = filter (\<lambda>e. n < serial e) (outstanding s)"
    "latest_serial s' = latest_serial s" "phase s' \<noteq> Destroyed" "\<not> dismissed s'"
    "reposition_serial s' = reposition_serial s"
    unfolding ack_configure_def dismissed_def by (auto split: if_splits option.splits)
  then have eq: "outstanding_serials s' = filter (\<lambda>m. n < m) (outstanding_serials s)"
    by (simp_all add: outstanding_serials_def filter_serials)
  have nonempty: "(outstanding s' = []) = (outstanding_serials s' = [])"
    "(outstanding s = []) = (outstanding_serials s = [])"
    by (simp_all add: outstanding_serials_def)
  from assms(1) have so: "sorted_wrt (<) (outstanding_serials s)"
    by (simp add: serials_in_order_def)
  have l: "outstanding s' = [] \<or> last (outstanding_serials s') = latest_serial s'"
  proof (cases "outstanding s' = []")
    case True
    then show ?thesis by simp
  next
    case False
    with nonempty eq have ne: "filter (\<lambda>m. n < m) (outstanding_serials s) \<noteq> []" by simp
    then have "outstanding_serials s \<noteq> []" by auto
    with assms(1) nonempty have "last (outstanding_serials s) = latest_serial s"
      by (simp add: serials_in_order_def)
    with sorted_filter_last [OF so ne] eq upd show ?thesis by simp
  qed
  from assms(1) eq upd l show ?thesis
    by (auto simp: serials_in_order_def sorted_wrt_filter list_all_iff)
qed

lemma inv_dismiss: "serials_in_order s \<Longrightarrow> serials_in_order (dismiss s)"
  by (auto simp: serials_in_order_def dismiss_def outstanding_serials_def dismissed_def
      split: surface_role.splits)

lemma inv_destroy: "serials_in_order s \<Longrightarrow> serials_in_order (destroy s)"
  by (simp add: serials_in_order_def destroy_def outstanding_serials_def dismissed_def)

lemma inv_handle: "serials_in_order s \<Longrightarrow> serials_in_order (handle g r s)"
proof (cases r)
  case (RequestConfigure st)
  assume "serials_in_order s"
  with RequestConfigure show ?thesis
    by (auto split: option.splits dest: inv_request)
next
  case (SetPositioner p)
  assume "serials_in_order s"
  with SetPositioner show ?thesis
    by (auto split: option.splits dest: inv_set_positioner)
next
  case (AckConfigure n)
  assume "serials_in_order s"
  with AckConfigure show ?thesis
    by (auto split: sum.splits configure_error.splits simp: inv_destroy dest: inv_ack)
next
  case Dismiss
  assume "serials_in_order s"
  with Dismiss show ?thesis by (simp add: inv_dismiss)
next
  case Destroy
  assume "serials_in_order s"
  with Destroy show ?thesis by (simp add: inv_destroy)
qed

lemma inv_run: "serials_in_order s \<Longrightarrow> serials_in_order (run g rs s)"
  by (induction rs arbitrary: s) (simp_all add: inv_handle)

lemma ack_latest:
  assumes inv: "serials_in_order s" and ne: "outstanding s \<noteq> []"
  shows "\<exists>s'. ack_configure (latest_serial s) s = Inr s' \<and> outstanding s' = [] \<and>
              phase s' = Acknowledged (latest_serial s)"
proof -
  let ?n = "latest_serial s"
  from inv ne have live: "phase s \<noteq> Destroyed" "\<not> dismissed s"
    by (auto simp: serials_in_order_def)
  from inv have rep: "\<not> ?n < reposition_serial s" by (simp add: serials_in_order_def)
  from ne have ne': "outstanding_serials s \<noteq> []" by (simp add: outstanding_serials_def)
  with inv ne have lst: "last (outstanding_serials s) = ?n" by (simp add: serials_in_order_def)
  with ne' have mem: "?n \<in> set (outstanding_serials s)" using last_in_set by metis
  then have ns: "\<not> stale ?n s" by (auto simp: stale_def list_all_iff)
  from mem obtain ev where ev: "find (\<lambda>e. serial e = ?n) (outstanding s) = Some ev"
    by (cases "find (\<lambda>e. serial e = ?n) (outstanding s)")
       (auto simp: find_None_iff outstanding_serials_def)
  from inv have "\<forall>e \<in> set (outstanding s). \<not> ?n < serial e"
    by (auto simp: serials_in_order_def list_all_iff outstanding_serials_def)
  then have "filter (\<lambda>e. ?n < serial e) (outstanding s) = []" by (simp add: filter_empty_conv)
  with live rep ns ev show ?thesis by (simp add: ack_configure_def)
qed

lemma ack_stale:
  assumes inv: "serials_in_order s" and ne: "outstanding s \<noteq> []"
    and low: "list_all (\<lambda>m. n < m) (outstanding_serials s)"
  shows "ack_configure n s = Inr s"
proof -
  from inv ne have "phase s \<noteq> Destroyed" "\<not> dismissed s"
    by (auto simp: serials_in_order_def)
  moreover from ne low have "stale n s" by (simp add: stale_def)
  ultimately show ?thesis by (simp add: ack_configure_def)
qed

subsection \<open>Delivery of the outbound events\<close>





section \<open>The claims\<close>

text \<open>
  Claim C1. The mapping exposes exactly four role identifier constants: the names of its
  \<open>constant\<close> category are \<open>XDG_TOPLEVEL_ROLE\<close>, \<open>ZXDG_TOPLEVEL_ROLE\<close>,
  \<open>XDG_POPUP_ROLE\<close> and \<open>ZXDG_POPUP_ROLE\<close>, every one of them and nothing else (two for
  toplevel, two for popup, one each for the \<open>xdg\<close> and the \<open>zxdg\<close> variant).
\<close>

theorem constant_roles_exactly_four:
  "set (category_names ''constant'') =
     {''XDG_TOPLEVEL_ROLE'', ''ZXDG_TOPLEVEL_ROLE'', ''XDG_POPUP_ROLE'', ''ZXDG_POPUP_ROLE''} \<and>
   length (category_names ''constant'') = 4"
  by (auto simp add: category_names_def category_constant)

text \<open>
  Claim C2. \<open>PopupConfigureError\<close> is the error type of popup acknowledgement: \<open>ack_configure\<close>
  returns either the surface or an error that is an \<open>AckError\<close> or a \<open>PopupConfigureError\<close>;
  on a popup that is not destroyed it fails with a \<open>PopupConfigureError\<close> variant when the
  popup is already dismissed, and when the popup acknowledges a serial that is out of order
  relative to its reposition requests; and it fails with such a variant on popups only, each
  variant for its own cause.
\<close>

theorem popup_ack_fails_with_popup_configure_error:
  "(role s = Popup Dismissed \<and> phase s \<noteq> Destroyed \<longrightarrow>
      ack_configure n s = Inl (PopupConfigureError AckWhileDismissed)) \<and>
   (role s = Popup l \<and> l \<noteq> Dismissed \<and> phase s \<noteq> Destroyed \<and>
    n \<in> set (outstanding_serials s) \<and> n < reposition_serial s \<longrightarrow>
      ack_configure n s = Inl (PopupConfigureError AckBeforeReposition)) \<and>
   (ack_configure n s = Inl err \<longrightarrow>
      err = AckError UnknownSerial \<or>
      err = PopupConfigureError AckWhileDismissed \<and> role s = Popup Dismissed \<or>
      err = PopupConfigureError AckBeforeReposition \<and> (\<exists>l'. role s = Popup l' \<and> l' \<noteq> Dismissed))"
proof (intro conjI impI)
  assume "role s = Popup Dismissed \<and> phase s \<noteq> Destroyed"
  then show "ack_configure n s = Inl (PopupConfigureError AckWhileDismissed)"
    by (simp add: ack_configure_def dismissed_def)
next
  assume a: "role s = Popup l \<and> l \<noteq> Dismissed \<and> phase s \<noteq> Destroyed \<and>
    n \<in> set (outstanding_serials s) \<and> n < reposition_serial s"
  then have ns: "\<not> stale n s" by (auto simp: stale_def list_all_iff)
  from a obtain ev where "find (\<lambda>e. serial e = n) (outstanding s) = Some ev"
    by (cases "find (\<lambda>e. serial e = n) (outstanding s)")
       (auto simp: find_None_iff outstanding_serials_def)
  with a ns show "ack_configure n s = Inl (PopupConfigureError AckBeforeReposition)"
    by (simp add: ack_configure_def dismissed_def)
next
  assume "ack_configure n s = Inl err"
  then show "err = AckError UnknownSerial \<or>
      err = PopupConfigureError AckWhileDismissed \<and> role s = Popup Dismissed \<or>
      err = PopupConfigureError AckBeforeReposition \<and> (\<exists>l'. role s = Popup l' \<and> l' \<noteq> Dismissed)"
    by (cases "role s") (auto simp: ack_configure_def dismissed_def split: if_splits option.splits)
qed


text \<open>
  Claim C2 on two popups. The first got a configure and was dismissed: the acknowledgement of
  its last configure is rejected. The second got a configure and then a reposition request:
  the acknowledgement of serial 1, issued before the reposition's serial 2, is rejected.
\<close>

theorem popup_ack_fails_with_popup_configure_error_witness:
  "role (run (\<lambda>p. ()) [RequestConfigure (), Dismiss] (new_popup :: (unit, unit) surface)) = Popup Dismissed \<and>
   phase (run (\<lambda>p. ()) [RequestConfigure (), Dismiss] (new_popup :: (unit, unit) surface)) \<noteq> Destroyed \<and>
   ack_configure 1 (run (\<lambda>p. ()) [RequestConfigure (), Dismiss] (new_popup :: (unit, unit) surface)) =
     Inl (PopupConfigureError AckWhileDismissed) \<and>
   role (run (\<lambda>p. ()) [RequestConfigure (), SetPositioner ()] (new_popup :: (unit, unit) surface)) = Popup Unmapped \<and>
   phase (run (\<lambda>p. ()) [RequestConfigure (), SetPositioner ()] (new_popup :: (unit, unit) surface)) \<noteq> Destroyed \<and>
   outstanding_serials (run (\<lambda>p. ()) [RequestConfigure (), SetPositioner ()] (new_popup :: (unit, unit) surface)) = [1, 2] \<and>
   reposition_serial (run (\<lambda>p. ()) [RequestConfigure (), SetPositioner ()] (new_popup :: (unit, unit) surface)) = 2 \<and>
   ack_configure 1 (run (\<lambda>p. ()) [RequestConfigure (), SetPositioner ()] (new_popup :: (unit, unit) surface)) =
     Inl (PopupConfigureError AckBeforeReposition)"
proof -
  let ?d = "run (\<lambda>p. ()) [RequestConfigure (), Dismiss] (new_popup :: (unit, unit) surface)"
  let ?r = "run (\<lambda>p. ()) [RequestConfigure (), SetPositioner ()] (new_popup :: (unit, unit) surface)"
  have d: "?d = \<lparr>role = Popup Dismissed, phase = Configured 1, latest_serial = 1,
     outstanding = [], current = None, positioner = None, reposition_serial = 0\<rparr>"
    by (simp add: new_popup_def request_configure_def dismissed_def dismiss_def Let_def)
  have r: "?r = \<lparr>role = Popup Unmapped, phase = Configured 2, latest_serial = 2,
     outstanding = [\<lparr>serial = 1, next_state = ()\<rparr>, \<lparr>serial = 2, next_state = ()\<rparr>],
     current = None, positioner = Some (), reposition_serial = 2\<rparr>"
    by (simp add: new_popup_def request_configure_def set_positioner_def dismissed_def Let_def)
  have hd: "role ?d = Popup Dismissed \<and> phase ?d \<noteq> Destroyed"
    unfolding d by simp
  have hr: "role ?r = Popup Unmapped \<and> Unmapped \<noteq> Dismissed \<and> phase ?r \<noteq> Destroyed \<and>
      1 \<in> set (outstanding_serials ?r) \<and> 1 < reposition_serial ?r"
    unfolding r by (simp add: outstanding_serials_def)
  have sr: "outstanding_serials ?r = [1, 2]" "reposition_serial ?r = 2"
    unfolding r by (simp_all add: outstanding_serials_def)
  from popup_ack_fails_with_popup_configure_error [of ?d 1 Unmapped "AckError UnknownSerial"] hd
  have ad: "ack_configure 1 ?d = Inl (PopupConfigureError AckWhileDismissed)" by blast
  from popup_ack_fails_with_popup_configure_error [of ?r 1 Unmapped "AckError UnknownSerial"] hr
  have ar: "ack_configure 1 ?r = Inl (PopupConfigureError AckBeforeReposition)" by blast
  from hd hr sr ad ar show ?thesis by blast
qed

text \<open>
  Claim C3, as the spec states it: \<open>Configure\<close> is an outbound event sent from the shell to
  the client, not a notification about a client acknowledgement. The mapping says the
  opposite: \<open>Configure\<close> is issued for notifying about an \<open>ack_configure\<close>.
\<close>

theorem configure_documented_as_ack_notification:
  "documented_with ''enum'' ''Configure'' ''for notifying about a ack_configure''"
  by (simp add: documented_with_def description_def category_enum)

text \<open>
  Claim C3, amended: the mapping lists \<open>Configure\<close> as an enum of the possible configure
  variants for an XdgSurface, issued in the user implementation for notifying about an
  \<open>ack_configure\<close>; the configure messages themselves are the structs
  \<open>ToplevelConfigure\<close> (for toplevel surfaces) and \<open>PopupConfigure\<close> (for popup surfaces).
\<close>

theorem configure_enum_and_configure_messages:
  "description ''enum'' ''Configure'' =
     Some ''Defines the possible configure variants for a XdgSurface that will be issued in the user_impl for notifying about a ack_configure'' \<and>
   description ''struct'' ''ToplevelConfigure'' = Some ''A configure message for toplevel surfaces'' \<and>
   description ''struct'' ''PopupConfigure'' = Some ''A configure message for popup surface''"
  by (simp add: description_def category_enum category_struct)

text \<open>
  Claim C4. Every type the spec's data model names (\<open>ShellClient\<close>, \<open>ToplevelSurface\<close>,
  \<open>PopupSurface\<close>, \<open>ToplevelState\<close>, \<open>ToplevelStateSet\<close>, \<open>PopupState\<close>,
  \<open>PositionerState\<close>, \<open>SurfaceCachedState\<close>, \<open>Configure\<close>, \<open>ToplevelConfigure\<close>,
  \<open>PopupConfigure\<close>, \<open>XdgToplevelSurfaceRoleAttributes\<close> and
  \<open>XdgPopupSurfaceRoleAttributes\<close>) is a symbol name of the mapping.
\<close>

theorem data_model_types_listed:
  "set [''ShellClient'', ''ToplevelSurface'', ''PopupSurface'', ''ToplevelState'',
        ''ToplevelStateSet'', ''PopupState'', ''PositionerState'', ''SurfaceCachedState'',
        ''Configure'', ''ToplevelConfigure'', ''PopupConfigure'',
        ''XdgToplevelSurfaceRoleAttributes'', ''XdgPopupSurfaceRoleAttributes'']
   \<subseteq> set symbol_names"
  by (simp add: symbol_names_eq)

text \<open>
  Claim C5. The script has no logic and no control flow: it is the single statement that calls
  \<open>initSidebarItems\<close> on one literal. Whatever the host makes of a call and whatever the
  state of the page, running the script is that one call; the literal reads as a mapping from
  categories to entries of a symbol name and a description, and no description has a line
  break.
\<close>

theorem script_is_one_call_on_a_literal:
  "sidebar_script = [CallStmt ''initSidebarItems'' [sidebar_literal]] \<and>
   exec_script host sidebar_script w = host ''initSidebarItems'' [sidebar_literal] w \<and>
   sidebar_of sidebar_literal = Some sidebar_items \<and>
   list_all (\<lambda>e. CHR 0x0A \<notin> set (snd e)) all_entries"
  by (simp add: sidebar_script_def sidebar_items_def sidebar_of_literal descriptions_one_line)


text \<open>
  Claim C7. For every surface and every sequence of \<open>request_configure\<close> calls on it, the
  serials issued are strictly increasing and pairwise different: they are the successors of
  the latest serial issued before, one after the other (and none at all on a destroyed surface
  or a dismissed popup, which accept no configure). On a new toplevel and on a new popup every
  call issues a serial, and the first serial is 1.
\<close>

theorem issued_serials_increase_from_one:
  "sorted_wrt (<) (request_all sts s) \<and>
   distinct (request_all sts s) \<and>
   request_all sts s =
     (if phase s = Destroyed \<or> dismissed s then []
      else [Suc (latest_serial s) ..< Suc (latest_serial s) + length sts]) \<and>
   request_all sts (new_toplevel :: ('a, 'p) surface) = [1 ..< Suc (length sts)] \<and>
   request_all sts (new_popup :: ('a, 'p) surface) = [1 ..< Suc (length sts)]"
proof -
  have shape: "request_all sts s =
     (if phase s = Destroyed \<or> dismissed s then []
      else [Suc (latest_serial s) ..< Suc (latest_serial s) + length sts])"
    using request_all_live [of s sts] request_all_dead [of s sts] by auto
  have incr: "sorted_wrt (<) (request_all sts s)" and uniq: "distinct (request_all sts s)"
    unfolding shape by (simp_all del: upt_Suc)
  have top: "request_all sts (new_toplevel :: ('a, 'p) surface) = [1 ..< Suc (length sts)]"
    using request_all_live [of "new_toplevel :: ('a, 'p) surface" sts]
    by (simp add: new_toplevel_def dismissed_def)
  have pop: "request_all sts (new_popup :: ('a, 'p) surface) = [1 ..< Suc (length sts)]"
    using request_all_live [of "new_popup :: ('a, 'p) surface" sts]
    by (simp add: new_popup_def dismissed_def)
  from incr uniq shape top pop show ?thesis by blast
qed

text \<open>
  Claim C8. Acknowledgement is cumulative and stale-tolerant: on every surface that a new
  toplevel or a new popup can become and that has outstanding configure serials, the highest
  issued serial is outstanding, its acknowledgement succeeds and leaves no serial outstanding
  (it acknowledges all prior outstanding serials), and the acknowledgement of a serial lower
  than the lowest outstanding serial is a no-op: it returns the surface as it was, and no
  error.
\<close>

theorem ack_cumulative_and_stale_tolerant:
  assumes "s0 = new_toplevel \<or> s0 = new_popup" and "s = run g reqs s0"
    and "outstanding s \<noteq> []"
  shows "latest_serial s \<in> set (outstanding_serials s) \<and>
         (\<exists>s'. ack_configure (latest_serial s) s = Inr s' \<and> outstanding s' = [] \<and>
              phase s' = Acknowledged (latest_serial s)) \<and>
         (list_all (\<lambda>m. n < m) (outstanding_serials s) \<longrightarrow> ack_configure n s = Inr s)"
proof -
  from assms(1,2) have inv: "serials_in_order s" using inv_new inv_run by auto
  from assms(3) have "outstanding_serials s \<noteq> []" by (simp add: outstanding_serials_def)
  with inv assms(3) have "latest_serial s \<in> set (outstanding_serials s)"
    using last_in_set [of "outstanding_serials s"] by (auto simp: serials_in_order_def)
  with inv assms(3) show ?thesis using ack_latest ack_stale by blast
qed

text \<open>
  Claim C8 on a popup that got a configure (serial 1), acknowledged it, got a reposition
  request (serial 2) and another configure (serial 3): the serials 2 and 3 are outstanding,
  the acknowledgement of 3 leaves none outstanding, and the acknowledgement of the stale
  serial 1 changes nothing.
\<close>

theorem ack_cumulative_and_stale_tolerant_witness:
  "outstanding_serials
     (run (\<lambda>p. ()) [RequestConfigure (), AckConfigure 1, SetPositioner (), RequestConfigure ()]
        (new_popup :: (unit, unit) surface)) = [2, 3] \<and>
   latest_serial
     (run (\<lambda>p. ()) [RequestConfigure (), AckConfigure 1, SetPositioner (), RequestConfigure ()]
        (new_popup :: (unit, unit) surface)) = 3 \<and>
   (\<exists>s'. ack_configure 3
           (run (\<lambda>p. ()) [RequestConfigure (), AckConfigure 1, SetPositioner (), RequestConfigure ()]
              (new_popup :: (unit, unit) surface)) = Inr s' \<and>
         outstanding s' = [] \<and> phase s' = Acknowledged 3) \<and>
   ack_configure 1
     (run (\<lambda>p. ()) [RequestConfigure (), AckConfigure 1, SetPositioner (), RequestConfigure ()]
        (new_popup :: (unit, unit) surface)) =
     Inr (run (\<lambda>p. ()) [RequestConfigure (), AckConfigure 1, SetPositioner (), RequestConfigure ()]
            (new_popup :: (unit, unit) surface))"
proof -
  let ?s = "run (\<lambda>p. ()) [RequestConfigure (), AckConfigure 1, SetPositioner (), RequestConfigure ()]
              (new_popup :: (unit, unit) surface)"
  have s: "?s = \<lparr>role = Popup Unmapped, phase = Configured 3, latest_serial = 3,
     outstanding = [\<lparr>serial = 2, next_state = ()\<rparr>, \<lparr>serial = 3, next_state = ()\<rparr>],
     current = Some (), positioner = Some (), reposition_serial = 2\<rparr>"
    by (simp add: new_popup_def request_configure_def set_positioner_def ack_configure_def
        stale_def outstanding_serials_def dismissed_def Let_def)
  have h: "outstanding ?s \<noteq> []" "latest_serial ?s = 3" "outstanding_serials ?s = [2, 3]"
    "list_all (\<lambda>m. 1 < m) (outstanding_serials ?s)"
    unfolding s by (simp_all add: outstanding_serials_def)
  from ack_cumulative_and_stale_tolerant
         [of new_popup ?s "\<lambda>p. ()"
             "[RequestConfigure (), AckConfigure 1, SetPositioner (), RequestConfigure ()]" 1] h
  show ?thesis by simp
qed

text \<open>
  Claim C9. No symbol name occurs twice in the mapping, across its four categories (whose
  keys differ too), so each of the 21 names has exactly one description.
\<close>

theorem symbol_names_unique:
  "distinct symbol_names \<and> distinct (map fst sidebar_items) \<and> length symbol_names = 21"
  by (simp add: symbol_names_eq sidebar_items_def sidebar_of_literal)

text \<open>
  Claim C10, as the spec states it: \<open>xdg_shell_init\<close>, the one entry of the \<open>fn\<close> category,
  is the module's only exposed function. The mapping itself names another function of the
  module: the description of \<open>PopupConfigureError\<close> speaks of the errors returned from
  \<open>PopupSurface::send_configure\<close>, a function of the listed struct \<open>PopupSurface\<close> that
  is not in the \<open>fn\<close> category.
\<close>

theorem send_configure_is_another_function:
  "(''PopupSurface'', ''send_configure'') \<in> set referenced_members \<and>
   documented_with ''enum'' ''PopupConfigureError''
     ''errors that can be returned from [`PopupSurface::send_configure`]'' \<and>
   ''PopupSurface'' \<in> set (category_names ''struct'') \<and>
   ''send_configure'' \<notin> set (category_names ''fn'')"
  by (simp add: referenced_members_eq documented_with_def description_def category_names_def
      category_enum category_struct category_fn)

text \<open>
  Claim C10, amended: the \<open>fn\<close> category of the mapping has exactly one entry,
  \<open>xdg_shell_init\<close>, described as creating a new \<open>xdg_shell\<close> global; it is the only free
  function the mapping lists (no constructor of a surface is among them), and the one other
  function the mapping names is the member \<open>send_configure\<close> of \<open>PopupSurface\<close>.
\<close>

theorem xdg_shell_init_only_free_function:
  "category ''fn'' = [(''xdg_shell_init'', ''Create a new `xdg_shell` global'')] \<and>
   category_names ''fn'' = [''xdg_shell_init''] \<and>
   referenced_members = [(''PopupSurface'', ''send_configure'')]"
  by (simp add: category_names_def category_fn referenced_members_eq)

end
